theory Spec2Isabelle
  imports Main
begin

section \<open>Idleview: the photo cache and refresh orchestration of src/main.js\<close>

text \<open>
  The development embeds the cache helpers, \<open>displayPhoto\<close>, \<open>fetchUnsplashPhoto\<close>,
  \<open>prefetchNextPhoto\<close>, \<open>checkPhotoContext\<close>, the start of \<open>init\<close> and
  \<open>window.refreshPhoto\<close> of src/main.js (first variant in the file, lines 1 to 497).

  JavaScript's \<open>async\<close> functions run on one thread and give up control only at an
  \<open>await\<close>. An async function is therefore modelled as a function from the state of the
  page to a \<^emph>\<open>resumption\<close>: either it has finished (normally or with an exception), or it
  is suspended at an awaited request, holding the continuation that runs when the answer
  arrives. Between suspension and resumption other tasks may have changed the page state,
  so the continuation takes the state of the page at the moment of resumption.
\<close>

subsection \<open>Data\<close>

text \<open>A value that can be thrown: an \<open>Error\<close> object with its name and message, a
  bare string (what a rejected \<open>invoke\<close> carries), or \<open>null\<close>/\<open>undefined\<close>.\<close>

datatype js_error = ErrorObj (err_name: string) (err_message: string) | ErrorStr string | ErrorNull

record photo =
  url :: string
  author :: string
  author_url :: string
  download_location :: "string option"

text \<open>The persisted record \<open>{ photo, query, timestamp }\<close>.\<close>

record cache_entry =
  photo :: photo
  query :: string
  timestamp :: int

text \<open>The module variable \<open>prefetchedPhoto = { photo, query }\<close>.\<close>

record prefetched =
  pphoto :: photo
  pquery :: string

text \<open>The weather fields the orchestration reads. The numbers are handed to the query
  builder untouched.\<close>

record weather =
  cloudcover :: int
  rain :: int
  snowfall :: int
  sunrise :: string
  sunset :: string

record photo_query_params =
  q_cloudcover :: int
  q_rain :: int
  q_snowfall :: int
  sunriseIso :: string
  sunsetIso :: string
  enableFestive :: bool

text \<open>The settings subtrees that the orchestration reads; a field that is missing or
  \<open>null\<close> is \<open>None\<close>.\<close>

record photos_settings =
  refresh_interval :: "int option"
  enable_festive_queries :: "bool option"

record display_settings =
  show_debug :: "bool option"

record settings =
  display :: "display_settings option"
  photos :: "photos_settings option"

record location =
  latitude :: int
  longitude :: int

datatype log_line =
    LogWaitingForWeather
  | LogUsingPrefetched
  | LogFetchingPhoto string nat nat
  | LogPhotoReady string
  | ErrFetchFailed js_error
  | LogPrefetching
  | LogPrefetched
  | ErrPrefetchFailed js_error
  | LogCacheExpired
  | ErrCheckFailed js_error
  | ErrLoadFailed
  | ErrRenderDebug js_error
  | LogSettingsLoaded settings
  | ErrSettingsFailed js_error
  | LogDisplayingCached
  | LogManualRefresh
  | LogPhotoRefreshed
  | WarnRetry nat nat nat js_error
  | ErrLocationFailed js_error
  | ErrWeatherFailed js_error

text \<open>Requests sent without waiting for the answer (\<open>.catch(() => {})\<close>).\<close>

datatype notification =
    TriggerDownload string
  | PostCurrentPhoto string string string
  | GetPrecipitationDisplay weather

text \<open>Calls handed to \<open>setTimeout\<close>, with their delay in milliseconds.\<close>

datatype timer_job =
    FetchLocationIn nat
  | UpdateWeatherIn nat location

text \<open>
  The state of the page: the module variables of main.js, the entry of \<open>localStorage\<close>
  under the key \<open>unsplash_photo_cache\<close>, the parts of the document that \<open>displayPhoto\<close>
  writes, the console, the retries handed to \<open>setTimeout\<close>, and the reading of
  \<open>Date.now()\<close>. The credit timer and the debug interval are kept as flags (armed or
  not). The text fields of the document (clock, location, weather metrics) are not
  modelled.
\<close>

record state =
  currentWeather :: "weather option"
  currentPhotoUrl :: "string option"
  debugInterval :: bool
  creditTimeout :: bool
  prefetchedPhoto :: "prefetched option"
  userSettings :: "settings option"
  lastCacheValid :: "bool option"
  lastPhotoFetchError :: "string option"
  localStorage :: "string option"
  userLocation :: "location option"
  innerWidth :: nat
  innerHeight :: nat
  backgroundImage :: "string option"
  photoCredit :: "(string \<times> string) option"
  creditHidden :: bool
  hasDebugEl :: bool
  debugShown :: bool
  console :: "log_line list"
  sent :: "notification list"
  scheduled :: "timer_job list"
  now :: int

text \<open>The built-ins \<open>JSON.parse\<close> and \<open>JSON.stringify\<close> are parameters. \<open>JSON.parse\<close>
  either throws or yields a value; the values read back from the cache key are typed as
  an entry or \<open>null\<close>.\<close>

record platform =
  JSON_parse :: "string \<Rightarrow> js_error + cache_entry option"
  JSON_stringify :: "cache_entry \<Rightarrow> string"

subsection \<open>Resumptions\<close>

datatype 's res =
    Done 's
  | Raise js_error 's
  | AwaitValid int 's "js_error + bool \<Rightarrow> 's \<Rightarrow> 's res"
  | AwaitQuery photo_query_params 's "js_error + string \<Rightarrow> 's \<Rightarrow> 's res"
  | AwaitPhoto nat nat string 's "js_error + photo \<Rightarrow> 's \<Rightarrow> 's res"
  | AwaitImage string 's "bool \<Rightarrow> 's \<Rightarrow> 's res"
  | AwaitDebug "cache_entry option" 's "js_error + unit \<Rightarrow> 's \<Rightarrow> 's res"
  | AwaitSettings 's "js_error + settings \<Rightarrow> 's \<Rightarrow> 's res"
  | AwaitLocation 's "js_error + location \<Rightarrow> 's \<Rightarrow> 's res"
  | AwaitWeather location 's "js_error + weather \<Rightarrow> 's \<Rightarrow> 's res"
  | AwaitTimer nat 's "unit \<Rightarrow> 's \<Rightarrow> 's res"

text \<open>\<open>then_do r f\<close>: statement sequencing, \<open>await r; f\<close>. An exception skips \<open>f\<close>.\<close>

primrec then_do :: "'s res \<Rightarrow> ('s \<Rightarrow> 's res) \<Rightarrow> 's res" where
  "then_do (Done s) f = f s"
| "then_do (Raise e s) f = Raise e s"
| "then_do (AwaitValid t s k) f = AwaitValid t s (\<lambda>r s'. then_do (k r s') f)"
| "then_do (AwaitQuery q s k) f = AwaitQuery q s (\<lambda>r s'. then_do (k r s') f)"
| "then_do (AwaitPhoto w h q s k) f = AwaitPhoto w h q s (\<lambda>r s'. then_do (k r s') f)"
| "then_do (AwaitImage u s k) f = AwaitImage u s (\<lambda>r s'. then_do (k r s') f)"
| "then_do (AwaitDebug c s k) f = AwaitDebug c s (\<lambda>r s'. then_do (k r s') f)"
| "then_do (AwaitSettings s k) f = AwaitSettings s (\<lambda>r s'. then_do (k r s') f)"
| "then_do (AwaitLocation s k) f = AwaitLocation s (\<lambda>r s'. then_do (k r s') f)"
| "then_do (AwaitWeather l s k) f = AwaitWeather l s (\<lambda>r s'. then_do (k r s') f)"
| "then_do (AwaitTimer d s k) f = AwaitTimer d s (\<lambda>r s'. then_do (k r s') f)"

text \<open>\<open>try_catch r h\<close>: \<open>try { r } catch (e) { h e }\<close>.\<close>

primrec try_catch :: "'s res \<Rightarrow> (js_error \<Rightarrow> 's \<Rightarrow> 's res) \<Rightarrow> 's res" where
  "try_catch (Done s) h = Done s"
| "try_catch (Raise e s) h = h e s"
| "try_catch (AwaitValid t s k) h = AwaitValid t s (\<lambda>r s'. try_catch (k r s') h)"
| "try_catch (AwaitQuery q s k) h = AwaitQuery q s (\<lambda>r s'. try_catch (k r s') h)"
| "try_catch (AwaitPhoto w h' q s k) h = AwaitPhoto w h' q s (\<lambda>r s'. try_catch (k r s') h)"
| "try_catch (AwaitImage u s k) h = AwaitImage u s (\<lambda>r s'. try_catch (k r s') h)"
| "try_catch (AwaitDebug c s k) h = AwaitDebug c s (\<lambda>r s'. try_catch (k r s') h)"
| "try_catch (AwaitSettings s k) h = AwaitSettings s (\<lambda>r s'. try_catch (k r s') h)"
| "try_catch (AwaitLocation s k) h = AwaitLocation s (\<lambda>r s'. try_catch (k r s') h)"
| "try_catch (AwaitWeather l s k) h = AwaitWeather l s (\<lambda>r s'. try_catch (k r s') h)"
| "try_catch (AwaitTimer d s k) h = AwaitTimer d s (\<lambda>r s'. try_catch (k r s') h)"

text \<open>An awaited \<open>invoke\<close>: a rejected promise is thrown at the \<open>await\<close>.\<close>

definition settled :: "('a \<Rightarrow> 's \<Rightarrow> 's res) \<Rightarrow> js_error + 'a \<Rightarrow> 's \<Rightarrow> 's res" where
  "settled k r s = (case r of Inl e \<Rightarrow> Raise e s | Inr v \<Rightarrow> k v s)"

definition console_log :: "log_line \<Rightarrow> state \<Rightarrow> state" where
  "console_log l s = s\<lparr>console := console s @ [l]\<rparr>"


subsection \<open>Cache helpers (main.js, lines 201 to 233)\<close>

text \<open>The body of the \<open>try\<close> in \<open>getCachedPhoto\<close>: the empty string is falsy, so it is
  not parsed.\<close>

definition getCachedPhoto_body :: "platform \<Rightarrow> state \<Rightarrow> js_error + cache_entry option" where
  "getCachedPhoto_body P s =
     (case localStorage s of
        None \<Rightarrow> Inr None
      | Some cachedData \<Rightarrow> if cachedData \<noteq> [] then JSON_parse P cachedData else Inr None)"

definition getCachedPhoto :: "platform \<Rightarrow> state \<Rightarrow> js_error + cache_entry option" where
  "getCachedPhoto P s =
     (case getCachedPhoto_body P s of
        Inl error \<Rightarrow> Inr None
      | Inr v \<Rightarrow> Inr v)"

definition cachePhoto :: "platform \<Rightarrow> photo \<Rightarrow> string \<Rightarrow> state \<Rightarrow> state" where
  "cachePhoto P p q s =
     s\<lparr>localStorage :=
         Some (JSON_stringify P \<lparr>photo = p, query = q, timestamp = now s\<rparr>)\<rparr>"

text \<open>\<open>userSettings?.photos?.refresh_interval\<close>\<close>

definition refresh_interval_setting :: "state \<Rightarrow> int option" where
  "refresh_interval_setting s =
     (case userSettings s of
        None \<Rightarrow> None
      | Some u \<Rightarrow> (case photos u of None \<Rightarrow> None | Some ph \<Rightarrow> refresh_interval ph))"

text \<open>\<open>(userSettings?.photos?.refresh_interval || 30) * 60 * 1000\<close>: zero is falsy.\<close>

definition getRefreshIntervalMs :: "state \<Rightarrow> int" where
  "getRefreshIntervalMs s =
     (case refresh_interval_setting s of
        None \<Rightarrow> 30
      | Some m \<Rightarrow> if m \<noteq> 0 then m else 30) * 60 * 1000"

text \<open>\<open>userSettings?.photos?.enable_festive_queries ?? true\<close>\<close>

definition festive_setting :: "state \<Rightarrow> bool" where
  "festive_setting s =
     (case userSettings s of
        None \<Rightarrow> True
      | Some u \<Rightarrow>
          (case photos u of
             None \<Rightarrow> True
           | Some ph \<Rightarrow> (case enable_festive_queries ph of None \<Rightarrow> True | Some b \<Rightarrow> b)))"

definition buildPhotoQueryParams :: "state \<Rightarrow> photo_query_params option" where
  "buildPhotoQueryParams s =
     (case currentWeather s of
        None \<Rightarrow> None
      | Some w \<Rightarrow>
          Some \<lparr>q_cloudcover = cloudcover w, q_rain = rain w, q_snowfall = snowfall w,
                sunriseIso = sunrise w, sunsetIso = sunset w,
                enableFestive = festive_setting s\<rparr>)"

definition fetchPhotoWithQuery ::
    "string \<Rightarrow> state \<Rightarrow> (photo \<Rightarrow> state \<Rightarrow> state res) \<Rightarrow> state res" where
  "fetchPhotoWithQuery q s k = AwaitPhoto (innerWidth s) (innerHeight s) q s (settled k)"

subsection \<open>displayPhoto (lines 244 to 346)\<close>

text \<open>\<open>userSettings?.display?.show_debug\<close> as a condition.\<close>

definition show_debug_on :: "state \<Rightarrow> bool" where
  "show_debug_on s =
     (case userSettings s of
        None \<Rightarrow> False
      | Some u \<Rightarrow> (case display u of None \<Rightarrow> False | Some d \<Rightarrow> show_debug d = Some True))"

text \<open>\<open>renderDebug\<close> reads the cache, asks the backend for the debug fields and writes
  the panel; of the panel only its visibility is kept.\<close>

definition renderDebug :: "platform \<Rightarrow> state \<Rightarrow> state res" where
  "renderDebug P s =
     try_catch
       (case getCachedPhoto P s of
          Inl e \<Rightarrow> Raise e s
        | Inr cached \<Rightarrow> AwaitDebug cached s (settled (\<lambda>debugInfo s1. Done s1)))
       (\<lambda>e s1. Done (console_log (ErrRenderDebug e) s1))"

text \<open>
  The preload promise settles whether the image loads or not (a failure is logged), then
  the background and the credit are written, the credit timer is re-armed, the debug
  interval is cleared, and the two notifications are sent without being awaited.
\<close>

definition displayPhoto :: "platform \<Rightarrow> photo \<Rightarrow> state \<Rightarrow> state res" where
  "displayPhoto P p s0 =
     AwaitImage (url p) (s0\<lparr>currentPhotoUrl := Some (url p)\<rparr>)
       (\<lambda>loaded s1.
          let s2 = (if loaded then s1 else console_log ErrLoadFailed s1);
              s3 = s2\<lparr>backgroundImage := Some (url p),
                      photoCredit := Some (author_url p, author p),
                      creditHidden := False,
                      creditTimeout := True,
                      debugInterval := False\<rparr>;
              s4 = (case download_location p of
                      None \<Rightarrow> s3
                    | Some d \<Rightarrow> if d \<noteq> [] then s3\<lparr>sent := sent s3 @ [TriggerDownload d]\<rparr> else s3);
              s5 = s4\<lparr>sent := sent s4 @ [PostCurrentPhoto (url p) (author p) (author_url p)]\<rparr>
          in if show_debug_on s5 then
               (if hasDebugEl s5 then
                  then_do (renderDebug P (s5\<lparr>debugShown := True\<rparr>))
                    (\<lambda>s6. Done (s6\<lparr>debugInterval := True\<rparr>))
                else Done s5)
             else
               (if hasDebugEl s5 then Done (s5\<lparr>debugShown := False\<rparr>) else Done s5))"

subsection \<open>fetchUnsplashPhoto (lines 348 to 394)\<close>

text \<open>\<open>error?.message || error?.toString() || 'Unknown error'\<close>\<close>

definition error_text :: "js_error \<Rightarrow> string" where
  "error_text error =
     (case error of
        ErrorObj n m \<Rightarrow> if m \<noteq> [] then m else if n \<noteq> [] then n else ''Unknown error''
      | ErrorStr t \<Rightarrow> if t \<noteq> [] then t else ''Unknown error''
      | ErrorNull \<Rightarrow> ''Unknown error'')"

text \<open>Lines 361 to 386: the rest of the \<open>try\<close> block, once the cached entry has not
  been reused.\<close>

definition fetch_new :: "platform \<Rightarrow> bool \<Rightarrow> state \<Rightarrow> state res" where
  "fetch_new P forceRefresh s =
     (if currentWeather s = None then Done (console_log LogWaitingForWeather s)
      else if prefetchedPhoto s \<noteq> None \<and> \<not> forceRefresh then
        (let pf = the (prefetchedPhoto s);
             s1 = cachePhoto P (pphoto pf) (pquery pf) (console_log LogUsingPrefetched s)
         in then_do (displayPhoto P (pphoto pf) s1)
              (\<lambda>s2. Done (s2\<lparr>prefetchedPhoto := None, lastPhotoFetchError := None\<rparr>)))
      else
        (case buildPhotoQueryParams s of
           None \<Rightarrow> Done s
         | Some queryParams \<Rightarrow>
             AwaitQuery queryParams s
               (settled (\<lambda>q s1.
                  fetchPhotoWithQuery q
                    (console_log (LogFetchingPhoto q (innerWidth s1) (innerHeight s1)) s1)
                    (\<lambda>p s2.
                       let s3 = cachePhoto P p q (console_log (LogPhotoReady (author p)) s2)
                       in then_do (displayPhoto P p s3)
                            (\<lambda>s4. Done (s4\<lparr>lastPhotoFetchError := None\<rparr>)))))))"

text \<open>The \<open>catch\<close> block, lines 388 to 393.\<close>

definition fetch_failed :: "platform \<Rightarrow> js_error \<Rightarrow> state \<Rightarrow> state res" where
  "fetch_failed P error s =
     (let s1 = console_log (ErrFetchFailed error) (s\<lparr>lastPhotoFetchError := Some (error_text error)\<rparr>)
      in case getCachedPhoto P s1 of
           Inl e \<Rightarrow> Raise e s1
         | Inr None \<Rightarrow> Done s1
         | Inr (Some cached) \<Rightarrow> displayPhoto P (photo cached) s1)"

text \<open>The \<open>try\<close> block, lines 351 to 386.\<close>

definition fetch_try :: "platform \<Rightarrow> bool \<Rightarrow> state \<Rightarrow> state res" where
  "fetch_try P forceRefresh s =
     (case getCachedPhoto P s of
        Inl e \<Rightarrow> Raise e s
      | Inr cached \<Rightarrow>
          if \<not> forceRefresh \<and> cached \<noteq> None then
            AwaitValid (timestamp (the cached)) s
              (settled (\<lambda>v s1.
                 let s2 = s1\<lparr>lastCacheValid := Some v\<rparr>
                 in if v then displayPhoto P (photo (the cached)) s2
                    else fetch_new P forceRefresh s2))
          else fetch_new P forceRefresh s)"

definition fetchUnsplashPhoto :: "platform \<Rightarrow> bool \<Rightarrow> state \<Rightarrow> state res" where
  "fetchUnsplashPhoto P forceRefresh s =
     try_catch (fetch_try P forceRefresh s) (fetch_failed P)"

subsection \<open>prefetchNextPhoto and checkPhotoContext (lines 396 to 436)\<close>

definition prefetchNextPhoto :: "state \<Rightarrow> state res" where
  "prefetchNextPhoto s =
     (if currentWeather s = None then Done s
      else
        try_catch
          (let s1 = console_log LogPrefetching s
           in case buildPhotoQueryParams s1 of
                None \<Rightarrow> Done s1
              | Some queryParams \<Rightarrow>
                  AwaitQuery queryParams s1
                    (settled (\<lambda>q s2.
                       fetchPhotoWithQuery q s2
                         (\<lambda>p s3.
                            Done (console_log LogPrefetched
                                   (s3\<lparr>prefetchedPhoto := Some \<lparr>pphoto = p, pquery = q\<rparr>\<rparr>))))))
          (\<lambda>error s1. Done (console_log (ErrPrefetchFailed error) s1)))"

definition checkPhotoContext :: "platform \<Rightarrow> state \<Rightarrow> state res" where
  "checkPhotoContext P s =
     (case getCachedPhoto P s of
        Inl e \<Rightarrow> Raise e s
      | Inr None \<Rightarrow> Done s
      | Inr (Some cached) \<Rightarrow>
          try_catch
            (let cacheAge = now s - timestamp cached;
                 refreshInterval = getRefreshIntervalMs s;
                 prefetchTime = refreshInterval - 60 * 1000
             in then_do
                  (if cacheAge \<ge> prefetchTime \<and> cacheAge < refreshInterval
                        \<and> prefetchedPhoto s = None
                   then prefetchNextPhoto s else Done s)
                  (\<lambda>s1. AwaitValid (timestamp cached) s1
                     (settled (\<lambda>isValid s2.
                        if \<not> isValid then fetchUnsplashPhoto P True (console_log LogCacheExpired s2)
                        else Done s2))))
            (\<lambda>error s1. Done (console_log (ErrCheckFailed error) s1)))"

subsection \<open>Start-up, weather acquisition and the manual refresh command\<close>

definition default_settings :: settings where
  "default_settings =
     \<lparr>display = Some \<lparr>show_debug = Some False\<rparr>,
      photos = Some \<lparr>refresh_interval = Some 30, enable_festive_queries = Some True\<rparr>\<rparr>"

text \<open>\<open>applyDisplaySettings\<close> only writes the document, but it reads
  \<open>userSettings.display.show_sunrise_sunset\<close> without a guard: a settings object with no
  \<open>display\<close> subtree makes it throw a \<open>TypeError\<close>.\<close>

definition applyDisplaySettings :: "state \<Rightarrow> state res" where
  "applyDisplaySettings s =
     (case userSettings s of
        None \<Rightarrow> Done s
      | Some u \<Rightarrow>
          (case display u of
             None \<Rightarrow> Raise (ErrorObj ''TypeError'' ''Cannot read properties of undefined'') s
           | Some d \<Rightarrow> Done s))"

definition loadSettings :: "state \<Rightarrow> state res" where
  "loadSettings s =
     try_catch
       (AwaitSettings s
          (settled (\<lambda>st s1.
             applyDisplaySettings (console_log (LogSettingsLoaded st) (s1\<lparr>userSettings := Some st\<rparr>)))))
       (\<lambda>error s1. Done ((console_log (ErrSettingsFailed error) s1)\<lparr>userSettings := Some default_settings\<rparr>))"

text \<open>The first two steps of \<open>init\<close>: load the settings, then show the cached photo.\<close>

definition init_show_cached :: "platform \<Rightarrow> state \<Rightarrow> state res" where
  "init_show_cached P s =
     then_do (loadSettings s)
       (\<lambda>s1. case getCachedPhoto P s1 of
                Inl e \<Rightarrow> Raise e s1
              | Inr None \<Rightarrow> Done s1
              | Inr (Some cached) \<Rightarrow> displayPhoto P (photo cached) (console_log LogDisplayingCached s1))"

text \<open>
  \<open>retryWithBackoff\<close> (lines 64 to 78): \<open>fn\<close> is awaited up to \<open>maxRetries\<close> times; a
  rejection is remembered and followed by a wait of \<open>baseDelayMs * 2 ^ attempt\<close>; a
  value is handed to the caller, and when the attempts are used up the last error is
  thrown (\<open>undefined\<close> if there was no attempt). \<open>retry_from n\<close> is the loop with \<open>n\<close>
  iterations left.
\<close>

primrec retry_from ::
    "nat \<Rightarrow> (state \<Rightarrow> (js_error + 'a \<Rightarrow> state \<Rightarrow> state res) \<Rightarrow> state res)
       \<Rightarrow> nat \<Rightarrow> nat \<Rightarrow> nat \<Rightarrow> js_error \<Rightarrow> ('a \<Rightarrow> state \<Rightarrow> state res) \<Rightarrow> state \<Rightarrow> state res" where
  "retry_from 0 = (\<lambda>fn maxRetries baseDelayMs attempt lastError k s. Raise lastError s)"
| "retry_from (Suc n) =
     (\<lambda>fn maxRetries baseDelayMs attempt lastError k s.
        fn s (\<lambda>r s1.
          case r of
            Inr v \<Rightarrow> k v s1
          | Inl error \<Rightarrow>
              let delay = baseDelayMs * 2 ^ attempt
              in AwaitTimer delay
                   (console_log (WarnRetry (attempt + 1) maxRetries delay error) s1)
                   (\<lambda>u s2. retry_from n fn maxRetries baseDelayMs (attempt + 1) error k s2)))"

definition retryWithBackoff ::
    "(state \<Rightarrow> (js_error + 'a \<Rightarrow> state \<Rightarrow> state res) \<Rightarrow> state res)
       \<Rightarrow> nat \<Rightarrow> nat \<Rightarrow> ('a \<Rightarrow> state \<Rightarrow> state res) \<Rightarrow> state \<Rightarrow> state res" where
  "retryWithBackoff fn maxRetries baseDelayMs k s =
     retry_from maxRetries fn maxRetries baseDelayMs 0 ErrorNull k s"

text \<open>\<open>updateWeatherDisplay\<close> (lines 25 to 62): it writes the metrics, asks for the
  precipitation display without awaiting it, and ends with \<open>currentWeather = weather\<close>.\<close>

definition updateWeatherDisplay :: "weather \<Rightarrow> state \<Rightarrow> state" where
  "updateWeatherDisplay weather s =
     s\<lparr>sent := sent s @ [GetPrecipitationDisplay weather], currentWeather := Some weather\<rparr>"

text \<open>\<open>updateWeather\<close> (lines 97 to 110).\<close>

definition updateWeather :: "platform \<Rightarrow> location \<Rightarrow> state \<Rightarrow> state res" where
  "updateWeather P location s =
     try_catch
       (retryWithBackoff (\<lambda>s0 k. AwaitWeather location s0 k) 5 2000
          (\<lambda>weather s1. fetchUnsplashPhoto P False (updateWeatherDisplay weather s1)) s)
       (\<lambda>error s1.
          Done ((console_log (ErrWeatherFailed error) s1)
                  \<lparr>scheduled := scheduled s1 @ [UpdateWeatherIn 30000 location]\<rparr>))"

text \<open>\<open>fetchLocation\<close> (lines 81 to 94).\<close>

definition fetchLocation :: "platform \<Rightarrow> state \<Rightarrow> state res" where
  "fetchLocation P s =
     try_catch
       (retryWithBackoff (\<lambda>s0 k. AwaitLocation s0 k) 5 2000
          (\<lambda>location s1. updateWeather P location (s1\<lparr>userLocation := Some location\<rparr>)) s)
       (\<lambda>error s1.
          Done ((console_log (ErrLocationFailed error) s1)
                  \<lparr>scheduled := scheduled s1 @ [FetchLocationIn 30000]\<rparr>))"

text \<open>\<open>init\<close> up to line 455, that is everything that \<open>init\<close> awaits before it calls
  \<open>checkPhotoContext\<close> for the first time and arms its interval: the settings, the
  cached photo, then location and weather.\<close>

definition init_before_first_tick :: "platform \<Rightarrow> state \<Rightarrow> state res" where
  "init_before_first_tick P s =
     then_do (init_show_cached P s)
       (\<lambda>s1. fetchLocation P (s1\<lparr>userLocation := None\<rparr>))"

text \<open>\<open>window.refreshPhoto\<close>.\<close>

definition refreshPhoto :: "platform \<Rightarrow> state \<Rightarrow> state res" where
  "refreshPhoto P s =
     (let s1 = console_log LogManualRefresh s
      in then_do
           (if currentWeather s1 = None \<and> userLocation s1 \<noteq> None
            then updateWeather P (the (userLocation s1)) s1 else Done s1)
           (\<lambda>s2. then_do (fetchUnsplashPhoto P True s2)
                    (\<lambda>s3. Done (console_log LogPhotoRefreshed s3))))"

subsection \<open>Running one operation to its end\<close>

text \<open>
  The backend and the browser as seen by the page: every capability maps the state of the
  outside world to an answer and a new state of the world, and \<open>clock\<close> reads the wall
  clock. \<open>run\<close> drives one operation with nothing else interleaved: at each \<open>await\<close> the
  answer is taken from the world, \<open>Date.now()\<close> is updated, and the continuation resumes.
  The exchanges are collected in order.
\<close>

record 'w backend =
  is_cache_valid :: "int \<Rightarrow> 'w \<Rightarrow> (js_error + bool) \<times> 'w"
  build_photo_query :: "photo_query_params \<Rightarrow> 'w \<Rightarrow> (js_error + string) \<times> 'w"
  get_unsplash_photo :: "nat \<Rightarrow> nat \<Rightarrow> string \<Rightarrow> 'w \<Rightarrow> (js_error + photo) \<times> 'w"
  load_image :: "string \<Rightarrow> 'w \<Rightarrow> bool \<times> 'w"
  get_debug_info :: "cache_entry option \<Rightarrow> 'w \<Rightarrow> (js_error + unit) \<times> 'w"
  get_settings :: "'w \<Rightarrow> (js_error + settings) \<times> 'w"
  get_location :: "'w \<Rightarrow> (js_error + location) \<times> 'w"
  get_weather :: "location \<Rightarrow> 'w \<Rightarrow> (js_error + weather) \<times> 'w"
  sleep :: "nat \<Rightarrow> 'w \<Rightarrow> unit \<times> 'w"
  clock :: "'w \<Rightarrow> int"

datatype exchange =
    EValid int "js_error + bool"
  | EQuery photo_query_params "js_error + string"
  | EPhoto nat nat string "js_error + photo"
  | EImage string bool
  | EDebug "cache_entry option" "js_error + unit"
  | ESettings "js_error + settings"
  | ELocation "js_error + location"
  | EWeather location "js_error + weather"
  | ETimer nat

record 'w outcome =
  thrown :: "js_error option"
  final :: state
  world :: 'w
  trace :: "(int \<times> exchange) list"

text \<open>\<open>heard t x\<close> puts the exchange \<open>x\<close>, answered at time \<open>t\<close>, in front of the trace.\<close>

definition heard :: "int \<Rightarrow> exchange \<Rightarrow> 'w outcome \<Rightarrow> 'w outcome" where
  "heard t x out = out\<lparr>trace := (t, x) # trace out\<rparr>"

primrec run :: "'w backend \<Rightarrow> state res \<Rightarrow> 'w \<Rightarrow> 'w outcome" where
  "run B (Done s) = (\<lambda>w. \<lparr>thrown = None, final = s, world = w, trace = []\<rparr>)"
| "run B (Raise e s) = (\<lambda>w. \<lparr>thrown = Some e, final = s, world = w, trace = []\<rparr>)"
| "run B (AwaitValid t s k) =
     (\<lambda>w. case is_cache_valid B t w of
             (r, w') \<Rightarrow>
               heard (clock B w') (EValid t r) (run B (k r (s\<lparr>now := clock B w'\<rparr>)) w'))"
| "run B (AwaitQuery q s k) =
     (\<lambda>w. case build_photo_query B q w of
             (r, w') \<Rightarrow>
               heard (clock B w') (EQuery q r) (run B (k r (s\<lparr>now := clock B w'\<rparr>)) w'))"
| "run B (AwaitPhoto wd ht q s k) =
     (\<lambda>w. case get_unsplash_photo B wd ht q w of
             (r, w') \<Rightarrow>
               heard (clock B w') (EPhoto wd ht q r) (run B (k r (s\<lparr>now := clock B w'\<rparr>)) w'))"
| "run B (AwaitImage u s k) =
     (\<lambda>w. case load_image B u w of
             (r, w') \<Rightarrow>
               heard (clock B w') (EImage u r) (run B (k r (s\<lparr>now := clock B w'\<rparr>)) w'))"
| "run B (AwaitDebug c s k) =
     (\<lambda>w. case get_debug_info B c w of
             (r, w') \<Rightarrow>
               heard (clock B w') (EDebug c r) (run B (k r (s\<lparr>now := clock B w'\<rparr>)) w'))"
| "run B (AwaitSettings s k) =
     (\<lambda>w. case get_settings B w of
             (r, w') \<Rightarrow>
               heard (clock B w') (ESettings r) (run B (k r (s\<lparr>now := clock B w'\<rparr>)) w'))"
| "run B (AwaitLocation s k) =
     (\<lambda>w. case get_location B w of
             (r, w') \<Rightarrow>
               heard (clock B w') (ELocation r) (run B (k r (s\<lparr>now := clock B w'\<rparr>)) w'))"
| "run B (AwaitWeather l s k) =
     (\<lambda>w. case get_weather B l w of
             (r, w') \<Rightarrow>
               heard (clock B w') (EWeather l r) (run B (k r (s\<lparr>now := clock B w'\<rparr>)) w'))"
| "run B (AwaitTimer d s k) =
     (\<lambda>w. case sleep B d w of
             (r, w') \<Rightarrow>
               heard (clock B w') (ETimer d) (run B (k r (s\<lparr>now := clock B w'\<rparr>)) w'))"


text \<open>What the real \<open>JSON\<close> built-ins guarantee for an entry: its text is not empty and
  parses back to the entry.\<close>

definition json_roundtrip :: "platform \<Rightarrow> bool" where
  "json_roundtrip P =
     (\<forall>e. JSON_stringify P e \<noteq> [] \<and> JSON_parse P (JSON_stringify P e) = Inr (Some e))"

subsection \<open>Several operations in flight\<close>

text \<open>
  The page with its suspended tasks. A trigger starts an operation, which runs up to its
  first \<open>await\<close>; an answer resumes the task that waits for it, on the state of the page
  as it is then, up to the task's next \<open>await\<close> or its end. An answer of the wrong kind,
  or for a task that is not waiting, is ignored.
\<close>

primrec state_of :: "'s res \<Rightarrow> 's" where
  "state_of (Done s) = s"
| "state_of (Raise e s) = s"
| "state_of (AwaitValid t s k) = s"
| "state_of (AwaitQuery q s k) = s"
| "state_of (AwaitPhoto w h q s k) = s"
| "state_of (AwaitImage u s k) = s"
| "state_of (AwaitDebug c s k) = s"
| "state_of (AwaitSettings s k) = s"
| "state_of (AwaitLocation s k) = s"
| "state_of (AwaitWeather l s k) = s"
| "state_of (AwaitTimer d s k) = s"

datatype answer =
    AValid "js_error + bool"
  | AQuery "js_error + string"
  | APhoto "js_error + photo"
  | AImage bool
  | ADebug "js_error + unit"
  | ASettings "js_error + settings"
  | ALocation "js_error + location"
  | AWeather "js_error + weather"
  | ATimer

primrec resume :: "'s res \<Rightarrow> answer \<Rightarrow> 's \<Rightarrow> 's res option" where
  "resume (Done s0) = (\<lambda>a s. None)"
| "resume (Raise e s0) = (\<lambda>a s. None)"
| "resume (AwaitValid t s0 k) = (\<lambda>a s. case a of AValid r \<Rightarrow> Some (k r s) | _ \<Rightarrow> None)"
| "resume (AwaitQuery q s0 k) = (\<lambda>a s. case a of AQuery r \<Rightarrow> Some (k r s) | _ \<Rightarrow> None)"
| "resume (AwaitPhoto w h q s0 k) = (\<lambda>a s. case a of APhoto r \<Rightarrow> Some (k r s) | _ \<Rightarrow> None)"
| "resume (AwaitImage u s0 k) = (\<lambda>a s. case a of AImage r \<Rightarrow> Some (k r s) | _ \<Rightarrow> None)"
| "resume (AwaitDebug c s0 k) = (\<lambda>a s. case a of ADebug r \<Rightarrow> Some (k r s) | _ \<Rightarrow> None)"
| "resume (AwaitSettings s0 k) = (\<lambda>a s. case a of ASettings r \<Rightarrow> Some (k r s) | _ \<Rightarrow> None)"
| "resume (AwaitLocation s0 k) = (\<lambda>a s. case a of ALocation r \<Rightarrow> Some (k r s) | _ \<Rightarrow> None)"
| "resume (AwaitWeather l s0 k) = (\<lambda>a s. case a of AWeather r \<Rightarrow> Some (k r s) | _ \<Rightarrow> None)"
| "resume (AwaitTimer d s0 k) = (\<lambda>a s. case a of ATimer \<Rightarrow> Some (k () s) | _ \<Rightarrow> None)"

datatype occurrence =
    Fires int "state \<Rightarrow> state res"
  | Answers int nat answer

record page =
  page_state :: state
  tasks :: "state res list"

fun occur :: "page \<Rightarrow> occurrence \<Rightarrow> page" where
  "occur pg (Fires t operation) =
     (let r = operation ((page_state pg)\<lparr>now := t\<rparr>)
      in \<lparr>page_state = state_of r, tasks = tasks pg @ [r]\<rparr>)"
| "occur pg (Answers t i a) =
     (if i < length (tasks pg) then
        (case resume (tasks pg ! i) a ((page_state pg)\<lparr>now := t\<rparr>) of
           None \<Rightarrow> pg
         | Some r \<Rightarrow> \<lparr>page_state = state_of r, tasks = (tasks pg)[i := r]\<rparr>)
      else pg)"

definition happen :: "occurrence list \<Rightarrow> page \<Rightarrow> page" where
  "happen occs pg = foldl occur pg occs"

text \<open>Whether a task is still suspended at an \<open>await\<close>.\<close>

primrec in_flight :: "'s res \<Rightarrow> bool" where
  "in_flight (Done s) = False"
| "in_flight (Raise e s) = False"
| "in_flight (AwaitValid t s k) = True"
| "in_flight (AwaitQuery q s k) = True"
| "in_flight (AwaitPhoto w h q s k) = True"
| "in_flight (AwaitImage u s k) = True"
| "in_flight (AwaitDebug c s k) = True"
| "in_flight (AwaitSettings s k) = True"
| "in_flight (AwaitLocation s k) = True"
| "in_flight (AwaitWeather l s k) = True"
| "in_flight (AwaitTimer d s k) = True"

subsection \<open>A small codec and a scripted backend for the worked examples\<close>

text \<open>
  A text format that stands in for JSON in the examples: every field is written
  character by character, each character after a mark, and closed by a full stop; the
  timestamp is a sign followed by as many strokes as its magnitude.
\<close>

fun enc_str :: "string \<Rightarrow> string" where
  "enc_str [] = ''.''"
| "enc_str (c # cs) = CHR ''c'' # c # enc_str cs"

fun dec_str :: "string \<Rightarrow> (string \<times> string) option" where
  "dec_str [] = None"
| "dec_str [m] = (if m = CHR ''.'' then Some ([], []) else None)"
| "dec_str (m # c # rest) =
     (if m = CHR ''.'' then Some ([], c # rest)
      else case dec_str rest of None \<Rightarrow> None | Some (t, r) \<Rightarrow> Some (c # t, r))"

definition enc_int :: "int \<Rightarrow> string" where
  "enc_int i = (if i < 0 then CHR ''-'' else CHR ''+'') # replicate (nat \<bar>i\<bar>) CHR ''1''"

definition dec_int :: "string \<Rightarrow> int" where
  "dec_int t = (case t of [] \<Rightarrow> 0 | sg # u \<Rightarrow> (if sg = CHR ''-'' then - 1 else 1) * int (length u))"

definition toy_body :: "cache_entry \<Rightarrow> string" where
  "toy_body e =
     enc_str (url (photo e)) @ enc_str (author (photo e))
       @ enc_str (author_url (photo e))
       @ (case download_location (photo e) of
            None \<Rightarrow> enc_str ''N'' @ enc_str []
          | Some d \<Rightarrow> enc_str ''S'' @ enc_str d)
       @ enc_str (query e) @ enc_str (enc_int (timestamp e))"

definition toy_stringify :: "cache_entry \<Rightarrow> string" where
  "toy_stringify e = CHR ''{'' # toy_body e"

definition syntax_error :: js_error where
  "syntax_error = ErrorObj ''SyntaxError'' ''Unexpected token''"

definition toy_fields :: "string \<Rightarrow> cache_entry option" where
  "toy_fields t0 =
     (case dec_str t0 of None \<Rightarrow> None | Some (u, t1) \<Rightarrow>
     (case dec_str t1 of None \<Rightarrow> None | Some (a, t2) \<Rightarrow>
     (case dec_str t2 of None \<Rightarrow> None | Some (au, t3) \<Rightarrow>
     (case dec_str t3 of None \<Rightarrow> None | Some (flag, t4) \<Rightarrow>
     (case dec_str t4 of None \<Rightarrow> None | Some (d, t5) \<Rightarrow>
     (case dec_str t5 of None \<Rightarrow> None | Some (q, t6) \<Rightarrow>
     (case dec_str t6 of None \<Rightarrow> None | Some (ts, t7) \<Rightarrow>
        (if t7 = [] then
           Some \<lparr>photo = \<lparr>url = u, author = a, author_url = au,
                          download_location = (if flag = ''S'' then Some d else None)\<rparr>,
                 query = q, timestamp = dec_int ts\<rparr>
         else None))))))))"

definition toy_parse :: "string \<Rightarrow> js_error + cache_entry option" where
  "toy_parse t =
     (if t = ''null'' then Inr None
      else case t of
             [] \<Rightarrow> Inl syntax_error
           | b # t0 \<Rightarrow>
               if b = CHR ''{'' then
                 (case toy_fields t0 of None \<Rightarrow> Inl syntax_error | Some e \<Rightarrow> Inr (Some e))
               else Inl syntax_error)"

definition toy :: platform where
  "toy = \<lparr>JSON_parse = toy_parse, JSON_stringify = toy_stringify\<rparr>"

text \<open>
  The scripted world: the answers each capability will give, in order, and the time.
  Every call takes one second; a capability whose answers have run out says that the
  cache is valid, returns the query \<open>nature\<close>, fails to fetch, loads the image, and
  fails to load the settings, the location and the weather. A timer takes its delay.
\<close>

record script =
  time :: int
  valid_answers :: "(js_error + bool) list"
  query_answers :: "(js_error + string) list"
  photo_answers :: "(js_error + photo) list"
  image_answers :: "bool list"
  settings_answers :: "(js_error + settings) list"
  location_answers :: "(js_error + location) list"
  weather_answers :: "(js_error + weather) list"

definition tick :: "script \<Rightarrow> script" where
  "tick w = w\<lparr>time := time w + 1000\<rparr>"

definition scripted :: "script backend" where
  "scripted =
     \<lparr>is_cache_valid = (\<lambda>t w. case valid_answers w of
          [] \<Rightarrow> (Inr True, tick w)
        | a # rest \<Rightarrow> (a, tick (w\<lparr>valid_answers := rest\<rparr>))),
      build_photo_query = (\<lambda>q w. case query_answers w of
          [] \<Rightarrow> (Inr ''nature'', tick w)
        | a # rest \<Rightarrow> (a, tick (w\<lparr>query_answers := rest\<rparr>))),
      get_unsplash_photo = (\<lambda>wd ht q w. case photo_answers w of
          [] \<Rightarrow> (Inl (ErrorStr ''offline''), tick w)
        | a # rest \<Rightarrow> (a, tick (w\<lparr>photo_answers := rest\<rparr>))),
      load_image = (\<lambda>u w. case image_answers w of
          [] \<Rightarrow> (True, tick w)
        | a # rest \<Rightarrow> (a, tick (w\<lparr>image_answers := rest\<rparr>))),
      get_debug_info = (\<lambda>c w. (Inr (), tick w)),
      get_settings = (\<lambda>w. case settings_answers w of
          [] \<Rightarrow> (Inl (ErrorStr ''no settings''), tick w)
        | a # rest \<Rightarrow> (a, tick (w\<lparr>settings_answers := rest\<rparr>))),
      get_location = (\<lambda>w. case location_answers w of
          [] \<Rightarrow> (Inl (ErrorStr ''no location''), tick w)
        | a # rest \<Rightarrow> (a, tick (w\<lparr>location_answers := rest\<rparr>))),
      get_weather = (\<lambda>l w. case weather_answers w of
          [] \<Rightarrow> (Inl (ErrorStr ''no weather''), tick w)
        | a # rest \<Rightarrow> (a, tick (w\<lparr>weather_answers := rest\<rparr>))),
      sleep = (\<lambda>d w. ((), w\<lparr>time := time w + int d\<rparr>)),
      clock = time\<rparr>"

definition quiet :: "int \<Rightarrow> script" where
  "quiet t = \<lparr>time = t, valid_answers = [], query_answers = [], photo_answers = [],
              image_answers = [], settings_answers = [], location_answers = [],
              weather_answers = []\<rparr>"

definition photo_a :: photo where
  "photo_a = \<lparr>url = ''a.jpg'', author = ''Ann'', author_url = ''u/ann'',
              download_location = Some ''dl/a''\<rparr>"

definition photo_b :: photo where
  "photo_b = \<lparr>url = ''b.jpg'', author = ''Bob'', author_url = ''u/bob'',
              download_location = None\<rparr>"

definition photo_c :: photo where
  "photo_c = \<lparr>url = ''c.jpg'', author = ''Cy'', author_url = ''u/cy'',
              download_location = None\<rparr>"

definition cloudy :: weather where
  "cloudy = \<lparr>cloudcover = 80, rain = 0, snowfall = 0, sunrise = ''06:00'', sunset = ''18:00''\<rparr>"

text \<open>A page just loaded: nothing cached, no weather yet, settings not loaded; the time
  is given.\<close>

definition blank :: "int \<Rightarrow> state" where
  "blank t =
     \<lparr>currentWeather = None, currentPhotoUrl = None, debugInterval = False,
      creditTimeout = False, prefetchedPhoto = None, userSettings = None,
      lastCacheValid = None, lastPhotoFetchError = None, localStorage = None,
      userLocation = None, innerWidth = 800, innerHeight = 480, backgroundImage = None,
      photoCredit = None, creditHidden = True, hasDebugEl = True, debugShown = False,
      console = [], sent = [], scheduled = [], now = t\<rparr>"

definition entry_a :: cache_entry where
  "entry_a = \<lparr>photo = photo_a, query = ''rain'', timestamp = 0\<rparr>"

text \<open>A page showing \<open>photo_a\<close>, cached at time 0 under the toy codec, with weather and
  the default settings (a thirty-minute interval) loaded.\<close>

definition showing_a :: "int \<Rightarrow> state" where
  "showing_a t =
     (blank t)\<lparr>currentWeather := Some cloudy,
               currentPhotoUrl := Some ''a.jpg'',
               userSettings := Some default_settings,
               localStorage := Some (toy_stringify entry_a),
               backgroundImage := Some ''a.jpg'',
               photoCredit := Some (''u/ann'', ''Ann'')\<rparr>"

subsection \<open>Auxiliary notions for the proofs\<close>

text \<open>Worlds for the examples: the photo service answers with \<open>photo_b\<close>; the
  validity check fails; the validity check says that the cache has expired.\<close>

definition serving_b :: "int \<Rightarrow> script" where
  "serving_b t = (quiet t)\<lparr>photo_answers := [Inr photo_b]\<rparr>"

definition oracle_down :: "int \<Rightarrow> script" where
  "oracle_down t = (serving_b t)\<lparr>valid_answers := [Inl (ErrorStr ''backend down'')]\<rparr>"

definition oracle_expired :: "int \<Rightarrow> script" where
  "oracle_expired t = (serving_b t)\<lparr>valid_answers := [Inr False]\<rparr>"

text \<open>More sample data: the page with \<open>photo_c\<close> prefetched and pending; a world in
  which location and weather arrive at the first attempt, the oracle calls the cache
  expired and the photo service answers with \<open>photo_b\<close>; the page just restarted, with
  only the persisted entry; and a tick and a manual refresh that overlap, each receiving
  its own photo.\<close>

definition pending_c :: "int \<Rightarrow> state" where
  "pending_c t = (showing_a t)\<lparr>prefetchedPhoto := Some \<lparr>pphoto = photo_c, pquery = ''snow''\<rparr>\<rparr>"

definition here :: location where
  "here = \<lparr>latitude = 46, longitude = 7\<rparr>"

definition located :: "int \<Rightarrow> script" where
  "located t = (oracle_expired t)\<lparr>location_answers := [Inr here], weather_answers := [Inr cloudy]\<rparr>"

definition restarted :: "int \<Rightarrow> state" where
  "restarted t = (blank t)\<lparr>localStorage := Some (toy_stringify entry_a)\<rparr>"

definition page0 :: page where
  "page0 = \<lparr>page_state = showing_a 1860000, tasks = []\<rparr>"

definition overlap :: "occurrence list" where
  "overlap =
     [Fires 1860000 (checkPhotoContext toy),
      Answers 1860100 0 (AValid (Inr False)),
      Fires 1860200 (refreshPhoto toy),
      Answers 1860300 0 (AQuery (Inr ''nature'')),
      Answers 1860400 1 (AQuery (Inr ''nature''))]"

definition first_lands :: occurrence where
  "first_lands = Answers 1860500 0 (APhoto (Inr photo_b))"

definition second_lands :: occurrence where
  "second_lands = Answers 1860600 1 (APhoto (Inr photo_c))"

text \<open>What \<open>getCachedPhoto\<close> returns, as a function of the stored text.\<close>

definition cached :: "platform \<Rightarrow> string option \<Rightarrow> cache_entry option" where
  "cached P ls = (case ls of
            None \<Rightarrow> None
          | Some cachedData \<Rightarrow>
              (if cachedData = [] then None
               else case JSON_parse P cachedData of Inl error \<Rightarrow> None | Inr v \<Rightarrow> v))"

text \<open>\<open>after tr out\<close>: the outcome \<open>out\<close> of a continuation, with the exchanges \<open>tr\<close> that
  came before it.\<close>

definition after :: "(int \<times> exchange) list \<Rightarrow> 'w outcome \<Rightarrow> 'w outcome" where
  "after tr out = out\<lparr>trace := tr @ trace out\<rparr>"

text \<open>A trace that only loads images and asks for debug fields.\<close>

definition display_only :: "(int \<times> exchange) list \<Rightarrow> bool" where
  "display_only tr = list_all (\<lambda>tx. case snd tx of EImage u l \<Rightarrow> True | EDebug c r \<Rightarrow> True | _ \<Rightarrow> False) tr"




text \<open>How many times the console shows that a prefetch has begun.\<close>

definition prefetches_logged :: "state \<Rightarrow> nat" where
  "prefetches_logged s = length (filter (\<lambda>l. l = LogPrefetching) (console s))"

text \<open>The first statement of the \<open>try\<close> block of \<open>checkPhotoContext\<close>, for an entry
  \<open>c\<close> read from the cache.\<close>

definition prefetch_stage :: "state \<Rightarrow> cache_entry \<Rightarrow> state res" where
  "prefetch_stage s c =
     (if getRefreshIntervalMs s - 60 * 1000 \<le> now s - timestamp c
           \<and> now s - timestamp c < getRefreshIntervalMs s
           \<and> prefetchedPhoto s = None
      then prefetchNextPhoto s else Done s)"


section \<open>Properties of the building blocks\<close>

subsection \<open>The codec and the scripted backend\<close>

lemma dec_str_stop: "dec_str (CHR ''.'' # r) = Some ([], r)"
  by (cases r) simp_all

lemma dec_enc_str: "dec_str (enc_str t @ r) = Some (t, r)"
  by (induction t) (simp_all add: dec_str_stop)

lemma dec_enc_int: "dec_int (enc_int i) = i"
  by (simp add: dec_int_def enc_int_def)

lemma toy_fields_body: "toy_fields (toy_body e) = Some e"
proof -
  obtain p q t where e: "e = \<lparr>photo = p, query = q, timestamp = t\<rparr>" by (cases e) auto
  obtain u a au d where p: "p = \<lparr>url = u, author = a, author_url = au, download_location = d\<rparr>" by (cases p) auto
  have last: "dec_str (enc_str x) = Some (x, [])" for x
    using dec_enc_str [of x "[]"] by simp
  show ?thesis
    by (cases d) (simp_all add: e p toy_fields_def toy_body_def dec_enc_str dec_str_stop last dec_enc_int)
qed

lemma toy_roundtrip: "json_roundtrip toy"
  by (simp add: json_roundtrip_def toy_def toy_parse_def toy_stringify_def toy_fields_body)


subsection \<open>Sequencing, handlers and the clock\<close>

lemma gcp: "getCachedPhoto P s = Inr (cached P (localStorage s))"
  by (simp add: getCachedPhoto_def getCachedPhoto_body_def cached_def split: option.splits sum.splits)

lemma after_simps [simp]:
  "thrown (after tr out) = thrown out" "final (after tr out) = final out"
  "world (after tr out) = world out" "trace (after tr out) = tr @ trace out"
  "after [] out = out"
  by (simp_all add: after_def)

lemma heard_simps [simp]:
  "thrown (heard t x out) = thrown out" "final (heard t x out) = final out"
  "world (heard t x out) = world out" "trace (heard t x out) = (t, x) # trace out"
  by (simp_all add: heard_def)

lemma heard_after: "heard t x (after tr out) = after ((t, x) # tr) out"
  by (simp add: heard_def after_def)

lemma heard_eq_after: "heard t x out = after [(t, x)] out"
  by (simp add: heard_def after_def)

lemma run_then_do:
  "run B (then_do r f) w =
     (case thrown (run B r w) of
        Some e \<Rightarrow> run B r w
      | None \<Rightarrow> after (trace (run B r w)) (run B (f (final (run B r w))) (world (run B r w))))"
proof (induction r arbitrary: w)
  case (Done s) show ?case by simp
next
  case (Raise e s) show ?case by simp
next
  case (AwaitValid t s k)
  note ih = AwaitValid.IH [OF rangeI rangeI]
  show ?case by (simp add: ih heard_after split: prod.splits option.splits)
next
  case (AwaitQuery q s k)
  note ih = AwaitQuery.IH [OF rangeI rangeI]
  show ?case by (simp add: ih heard_after split: prod.splits option.splits)
next
  case (AwaitPhoto wd ht q s k)
  note ih = AwaitPhoto.IH [OF rangeI rangeI]
  show ?case by (simp add: ih heard_after split: prod.splits option.splits)
next
  case (AwaitImage u s k)
  note ih = AwaitImage.IH [OF rangeI rangeI]
  show ?case by (simp add: ih heard_after split: prod.splits option.splits)
next
  case (AwaitDebug c s k)
  note ih = AwaitDebug.IH [OF rangeI rangeI]
  show ?case by (simp add: ih heard_after split: prod.splits option.splits)
next
  case (AwaitSettings s k)
  note ih = AwaitSettings.IH [OF rangeI rangeI]
  show ?case by (simp add: ih heard_after split: prod.splits option.splits)
next
  case (AwaitLocation s k)
  note ih = AwaitLocation.IH [OF rangeI rangeI]
  show ?case by (simp add: ih heard_after split: prod.splits option.splits)
next
  case (AwaitWeather l s k)
  note ih = AwaitWeather.IH [OF rangeI rangeI]
  show ?case by (simp add: ih heard_after split: prod.splits option.splits)
next
  case (AwaitTimer d s k)
  note ih = AwaitTimer.IH [OF rangeI rangeI]
  show ?case by (simp add: ih heard_after split: prod.splits option.splits)
qed

lemma run_try_catch:
  "run B (try_catch r h) w =
     (case thrown (run B r w) of
        None \<Rightarrow> run B r w
      | Some e \<Rightarrow> after (trace (run B r w)) (run B (h e (final (run B r w))) (world (run B r w))))"
proof (induction r arbitrary: w)
  case (Done s) show ?case by simp
next
  case (Raise e s) show ?case by simp
next
  case (AwaitValid t s k)
  note ih = AwaitValid.IH [OF rangeI rangeI]
  show ?case by (simp add: ih heard_after split: prod.splits option.splits)
next
  case (AwaitQuery q s k)
  note ih = AwaitQuery.IH [OF rangeI rangeI]
  show ?case by (simp add: ih heard_after split: prod.splits option.splits)
next
  case (AwaitPhoto wd ht q s k)
  note ih = AwaitPhoto.IH [OF rangeI rangeI]
  show ?case by (simp add: ih heard_after split: prod.splits option.splits)
next
  case (AwaitImage u s k)
  note ih = AwaitImage.IH [OF rangeI rangeI]
  show ?case by (simp add: ih heard_after split: prod.splits option.splits)
next
  case (AwaitDebug c s k)
  note ih = AwaitDebug.IH [OF rangeI rangeI]
  show ?case by (simp add: ih heard_after split: prod.splits option.splits)
next
  case (AwaitSettings s k)
  note ih = AwaitSettings.IH [OF rangeI rangeI]
  show ?case by (simp add: ih heard_after split: prod.splits option.splits)
next
  case (AwaitLocation s k)
  note ih = AwaitLocation.IH [OF rangeI rangeI]
  show ?case by (simp add: ih heard_after split: prod.splits option.splits)
next
  case (AwaitWeather l s k)
  note ih = AwaitWeather.IH [OF rangeI rangeI]
  show ?case by (simp add: ih heard_after split: prod.splits option.splits)
next
  case (AwaitTimer d s k)
  note ih = AwaitTimer.IH [OF rangeI rangeI]
  show ?case by (simp add: ih heard_after split: prod.splits option.splits)
qed


subsection \<open>displayPhoto\<close>

lemma run_renderDebug:
  "run B (renderDebug P s) w =
     (case get_debug_info B (cached P (localStorage s)) w of
        (r, w') \<Rightarrow>
          \<lparr>thrown = None,
           final = (case r of Inl e \<Rightarrow> console_log (ErrRenderDebug e) (s\<lparr>now := clock B w'\<rparr>)
                            | Inr v \<Rightarrow> s\<lparr>now := clock B w'\<rparr>),
           world = w',
           trace = [(clock B w', EDebug (cached P (localStorage s)) r)]\<rparr>)"
  by (simp add: renderDebug_def gcp settled_def heard_def split: prod.splits sum.splits)

lemma display_only_simps [simp]:
  "display_only []"
  "display_only ((t, EImage u l) # tr) = display_only tr"
  "display_only ((t, EDebug c r) # tr) = display_only tr"
  "\<not> display_only ((t, EValid ts v) # tr)"
  "\<not> display_only ((t, EQuery q qr) # tr)"
  "\<not> display_only ((t, EPhoto wd ht qs pr) # tr)"
  "\<not> display_only ((t, ESettings sr) # tr)"
  "\<not> display_only ((t, ELocation lr) # tr)"
  "\<not> display_only ((t, EWeather loc wr) # tr)"
  "\<not> display_only ((t, ETimer d) # tr)"
  "display_only (tr @ tr') = (display_only tr \<and> display_only tr')"
  by (simp_all add: display_only_def)

lemma display_only_mem:
  "display_only tr \<Longrightarrow> (t, EValid ts v) \<notin> set tr \<and> (t, EQuery q qr) \<notin> set tr
     \<and> (t, EPhoto wd ht qs pr) \<notin> set tr \<and> (t, ESettings sr) \<notin> set tr"
  by (auto simp: display_only_def list_all_iff)

lemma displayPhoto_run:
  "thrown (run B (displayPhoto P p s) w) = None"
  "display_only (trace (run B (displayPhoto P p s) w))"
  "backgroundImage (final (run B (displayPhoto P p s) w)) = Some (url p)"
  "currentPhotoUrl (final (run B (displayPhoto P p s) w)) = Some (url p)"
  "photoCredit (final (run B (displayPhoto P p s) w)) = Some (author_url p, author p)"
  by (simp_all add: displayPhoto_def run_then_do run_renderDebug Let_def console_log_def
        split: prod.splits sum.splits option.splits)

lemma displayPhoto_keeps:
  "currentWeather (final (run B (displayPhoto P p s) w)) = currentWeather s"
  "prefetchedPhoto (final (run B (displayPhoto P p s) w)) = prefetchedPhoto s"
  "userSettings (final (run B (displayPhoto P p s) w)) = userSettings s"
  "lastCacheValid (final (run B (displayPhoto P p s) w)) = lastCacheValid s"
  "lastPhotoFetchError (final (run B (displayPhoto P p s) w)) = lastPhotoFetchError s"
  "localStorage (final (run B (displayPhoto P p s) w)) = localStorage s"
  "userLocation (final (run B (displayPhoto P p s) w)) = userLocation s"
  "innerWidth (final (run B (displayPhoto P p s) w)) = innerWidth s"
  "innerHeight (final (run B (displayPhoto P p s) w)) = innerHeight s"
  "hasDebugEl (final (run B (displayPhoto P p s) w)) = hasDebugEl s"
  by (simp_all add: displayPhoto_def run_then_do run_renderDebug Let_def console_log_def
        split: prod.splits sum.splits option.splits)


subsection \<open>fetchUnsplashPhoto\<close>

lemma displayPhoto_trace [simp]:
  "(t, EValid ts v) \<notin> set (trace (run B (displayPhoto P p s) w))"
  "(t, EQuery q qr) \<notin> set (trace (run B (displayPhoto P p s) w))"
  "(t, EPhoto wd ht qs pr) \<notin> set (trace (run B (displayPhoto P p s) w))"
  "(t, ESettings sr) \<notin> set (trace (run B (displayPhoto P p s) w))"
  using display_only_mem [OF displayPhoto_run(2), of t ts v B P p s w q qr wd ht qs pr sr] by simp_all

lemmas displayPhoto_facts = displayPhoto_run displayPhoto_keeps


lemmas new_defs = fetch_new_def fetchPhotoWithQuery_def settled_def run_then_do Let_def



lemma fetch_new_trace [simp]:
  "(t, EValid ts v) \<notin> set (trace (run B (fetch_new P f s) w))"
  "(t, ESettings sr) \<notin> set (trace (run B (fetch_new P f s) w))"
  by (simp_all add: new_defs displayPhoto_run
        split: option.splits sum.splits prod.splits)




lemma run_fetch_failed:
  "thrown (run B (fetch_failed P e s) w) = None"
  "display_only (trace (run B (fetch_failed P e s) w))"
  "localStorage (final (run B (fetch_failed P e s) w)) = localStorage s"
  "prefetchedPhoto (final (run B (fetch_failed P e s) w)) = prefetchedPhoto s"
  "lastCacheValid (final (run B (fetch_failed P e s) w)) = lastCacheValid s"
  "lastPhotoFetchError (final (run B (fetch_failed P e s) w)) = Some (error_text e)"
  by (simp_all add: fetch_failed_def gcp Let_def displayPhoto_facts console_log_def split: option.splits)




lemma run_fetch_try:
  "run B (fetch_try P f s) w =
     (if \<not> f \<and> cached P (localStorage s) \<noteq> None then
        (case is_cache_valid B (timestamp (the (cached P (localStorage s)))) w of
           (r, w1) \<Rightarrow>
             heard (clock B w1) (EValid (timestamp (the (cached P (localStorage s)))) r)
               (case r of
                  Inl e \<Rightarrow> \<lparr>thrown = Some e, final = s\<lparr>now := clock B w1\<rparr>, world = w1, trace = []\<rparr>
                | Inr v \<Rightarrow>
                    if v then run B (displayPhoto P (photo (the (cached P (localStorage s))))
                                  (s\<lparr>now := clock B w1, lastCacheValid := Some True\<rparr>)) w1
                    else run B (fetch_new P f (s\<lparr>now := clock B w1, lastCacheValid := Some False\<rparr>)) w1))
      else run B (fetch_new P f s) w)"
  by (simp add: fetch_try_def gcp settled_def Let_def split: prod.splits sum.splits)



lemma fetch_failed_trace [simp]:
  "(t, EValid ts v) \<notin> set (trace (run B (fetch_failed P e s) w))"
  "(t, EQuery q qr) \<notin> set (trace (run B (fetch_failed P e s) w))"
  "(t, EPhoto wd ht qs pr) \<notin> set (trace (run B (fetch_failed P e s) w))"
  "(t, ESettings sr) \<notin> set (trace (run B (fetch_failed P e s) w))"
  using display_only_mem [OF run_fetch_failed(2), of t ts v B P e s w q qr wd ht qs pr sr] by simp_all



lemma run_fetchUnsplashPhoto:
  "run B (fetchUnsplashPhoto P f s) w =
     (case thrown (run B (fetch_try P f s) w) of
        None \<Rightarrow> run B (fetch_try P f s) w
      | Some e \<Rightarrow>
          after (trace (run B (fetch_try P f s) w))
            (run B (fetch_failed P e (final (run B (fetch_try P f s) w)))
               (world (run B (fetch_try P f s) w))))"
  by (simp add: fetchUnsplashPhoto_def run_try_catch)

lemma fetchUnsplashPhoto_returns: "thrown (run B (fetchUnsplashPhoto P f s) w) = None"
  by (simp add: run_fetchUnsplashPhoto run_fetch_failed split: option.splits)

subsection \<open>prefetchNextPhoto and checkPhotoContext\<close>

lemmas prefetch_defs = prefetchNextPhoto_def fetchPhotoWithQuery_def settled_def Let_def
  console_log_def buildPhotoQueryParams_def heard_def

lemma prefetch_returns: "thrown (run B (prefetchNextPhoto s) w) = None"
  by (simp add: prefetch_defs split: option.splits sum.splits prod.splits)

lemma prefetch_frame:
  "final (run B (prefetchNextPhoto s) w)
     = s\<lparr>prefetchedPhoto := prefetchedPhoto (final (run B (prefetchNextPhoto s) w)),
          console := console (final (run B (prefetchNextPhoto s) w)),
          now := now (final (run B (prefetchNextPhoto s) w))\<rparr>"
  by (simp add: prefetch_defs split: option.splits sum.splits prod.splits)

lemma prefetch_undisturbed_but_buffer:
  "localStorage (final (run B (prefetchNextPhoto s) w)) = localStorage s"
  "backgroundImage (final (run B (prefetchNextPhoto s) w)) = backgroundImage s"
  "currentPhotoUrl (final (run B (prefetchNextPhoto s) w)) = currentPhotoUrl s"
  "photoCredit (final (run B (prefetchNextPhoto s) w)) = photoCredit s"
  "sent (final (run B (prefetchNextPhoto s) w)) = sent s"
  "lastPhotoFetchError (final (run B (prefetchNextPhoto s) w)) = lastPhotoFetchError s"
  "lastCacheValid (final (run B (prefetchNextPhoto s) w)) = lastCacheValid s"
  "currentWeather (final (run B (prefetchNextPhoto s) w)) = currentWeather s"
  "userSettings (final (run B (prefetchNextPhoto s) w)) = userSettings s"
  by (subst prefetch_frame, simp)+

lemma prefetch_trace [simp]:
  "(t, EValid ts v) \<notin> set (trace (run B (prefetchNextPhoto s) w))"
  "(t, ESettings sr) \<notin> set (trace (run B (prefetchNextPhoto s) w))"
  "(t, EImage u l) \<notin> set (trace (run B (prefetchNextPhoto s) w))"
  "(t, EDebug c r) \<notin> set (trace (run B (prefetchNextPhoto s) w))"
  by (simp_all add: prefetch_defs split: option.splits sum.splits prod.splits)

lemma prefetch_stored:
  "(t, EPhoto wd ht q (Inr p)) \<in> set (trace (run B (prefetchNextPhoto s) w))
     \<Longrightarrow> prefetchedPhoto (final (run B (prefetchNextPhoto s) w)) = Some \<lparr>pphoto = p, pquery = q\<rparr>"
  by (auto simp add: prefetch_defs split: option.splits sum.splits prod.splits if_splits)

lemma prefetch_not_stored:
  "(\<forall>t wd ht q p. (t, EPhoto wd ht q (Inr p)) \<notin> set (trace (run B (prefetchNextPhoto s) w)))
     \<Longrightarrow> prefetchedPhoto (final (run B (prefetchNextPhoto s) w)) = prefetchedPhoto s"
  by (auto simp add: prefetch_defs split: option.splits sum.splits prod.splits if_splits)

lemma prefetch_failure_logged:
  "(t, EPhoto wd ht q (Inl e)) \<in> set (trace (run B (prefetchNextPhoto s) w))
     \<Longrightarrow> ErrPrefetchFailed e \<in> set (console (final (run B (prefetchNextPhoto s) w)))"
  by (auto simp add: prefetch_defs split: option.splits sum.splits prod.splits if_splits)

lemma prefetch_no_context:
  "currentWeather s = None \<Longrightarrow> run B (prefetchNextPhoto s) w = \<lparr>thrown = None, final = s, world = w, trace = []\<rparr>"
  by (simp add: prefetchNextPhoto_def)

lemma fetchUnsplashPhoto_forced_trace [simp]:
  "(t, EValid ts v) \<notin> set (trace (run B (fetchUnsplashPhoto P True s) w))"
  by (simp add: run_fetchUnsplashPhoto run_fetch_try split: option.splits)

lemma prefetch_stage_run:
  "thrown (run B (prefetch_stage s c) w) = None"
  "localStorage (final (run B (prefetch_stage s c) w)) = localStorage s"
  "backgroundImage (final (run B (prefetch_stage s c) w)) = backgroundImage s"
  "currentPhotoUrl (final (run B (prefetch_stage s c) w)) = currentPhotoUrl s"
  "lastPhotoFetchError (final (run B (prefetch_stage s c) w)) = lastPhotoFetchError s"
  "(t, EValid ts v) \<notin> set (trace (run B (prefetch_stage s c) w))"
  by (simp_all add: prefetch_stage_def prefetch_returns prefetch_undisturbed_but_buffer)

lemma run_checkPhotoContext:
  assumes "cached P (localStorage s) = Some c"
  shows "run B (checkPhotoContext P s) w =
    (case is_cache_valid B (timestamp c) (world (run B (prefetch_stage s c) w)) of
       (r, w2) \<Rightarrow>
         after (trace (run B (prefetch_stage s c) w))
           (heard (clock B w2) (EValid (timestamp c) r)
              (case r of
                 Inl e \<Rightarrow>
                   \<lparr>thrown = None,
                    final = console_log (ErrCheckFailed e)
                      ((final (run B (prefetch_stage s c) w))\<lparr>now := clock B w2\<rparr>),
                    world = w2, trace = []\<rparr>
               | Inr v \<Rightarrow>
                   if v then
                     \<lparr>thrown = None,
                      final = (final (run B (prefetch_stage s c) w))\<lparr>now := clock B w2\<rparr>,
                      world = w2, trace = []\<rparr>
                   else
                     run B (fetchUnsplashPhoto P True
                        (console_log LogCacheExpired
                          ((final (run B (prefetch_stage s c) w))\<lparr>now := clock B w2\<rparr>))) w2)))"
proof -
  have "checkPhotoContext P s =
      try_catch
        (then_do (prefetch_stage s c)
           (\<lambda>s1. AwaitValid (timestamp c) s1
              (settled (\<lambda>isValid s2.
                 if \<not> isValid then fetchUnsplashPhoto P True (console_log LogCacheExpired s2)
                 else Done s2))))
        (\<lambda>error s1. Done (console_log (ErrCheckFailed error) s1))"
    by (simp add: checkPhotoContext_def gcp assms prefetch_stage_def Let_def)
  then show ?thesis
    by (simp add: run_try_catch run_then_do prefetch_stage_run settled_def heard_after
          fetchUnsplashPhoto_returns split: prod.splits sum.splits)
qed

lemma run_checkPhotoContext_empty:
  "cached P (localStorage s) = None \<Longrightarrow>
     run B (checkPhotoContext P s) w = \<lparr>thrown = None, final = s, world = w, trace = []\<rparr>"
  by (simp add: checkPhotoContext_def gcp)


lemma prefetches_logged_simps [simp]:
  "prefetches_logged (s\<lparr>now := t\<rparr>) = prefetches_logged s"
  "prefetches_logged (s\<lparr>lastCacheValid := v\<rparr>) = prefetches_logged s"
  "prefetches_logged (console_log l s) = prefetches_logged s + (if l = LogPrefetching then 1 else 0)"
  by (simp_all add: prefetches_logged_def console_log_def)







subsection \<open>Start-up, forced refresh, consumption of the buffer, commit times\<close>



















section \<open>The claims\<close>


text \<open>Unfolding everything, for runs on the sample data.\<close>

lemmas eval_defs = fetchUnsplashPhoto_def fetch_try_def fetch_new_def fetch_failed_def displayPhoto_def
  renderDebug_def prefetchNextPhoto_def checkPhotoContext_def fetchPhotoWithQuery_def settled_def
  cachePhoto_def console_log_def heard_def buildPhotoQueryParams_def festive_setting_def show_debug_on_def
  getRefreshIntervalMs_def refresh_interval_setting_def default_settings_def
  scripted_def tick_def quiet_def showing_a_def blank_def cloudy_def photo_a_def photo_b_def photo_c_def
  entry_a_def serving_b_def oracle_down_def oracle_expired_def
  gcp cached_def toy_def toy_roundtrip [unfolded json_roundtrip_def toy_def, simplified] Let_def

lemmas sample_defs = pending_c_def here_def located_def restarted_def page0_def overlap_def
  retryWithBackoff_def updateWeatherDisplay_def updateWeather_def fetchLocation_def
  init_before_first_tick_def
  first_lands_def second_lands_def refreshPhoto_def loadSettings_def applyDisplaySettings_def
  init_show_cached_def happen_def







text \<open>
  C7. \<open>prefetchNextPhoto\<close> returns without raising and changes nothing but the prefetch
  buffer, the console and the clock reading: the stored entry and the surface are as
  before. When the fetch succeeds the buffer holds the fetched photo with its query; when
  nothing was fetched the buffer is as it was (empty if it was empty), and a failed fetch
  is logged; without weather it returns at once, with no request and no log line.
\<close>

theorem C7_prefetch_touches_only_the_buffer:
  assumes "out = run B (prefetchNextPhoto s) w"
  shows "thrown out = None
    \<and> localStorage (final out) = localStorage s
    \<and> backgroundImage (final out) = backgroundImage s
    \<and> final out = s\<lparr>prefetchedPhoto := prefetchedPhoto (final out),
                     console := console (final out), now := now (final out)\<rparr>
    \<and> (\<forall>t wd ht q p. (t, EPhoto wd ht q (Inr p)) \<in> set (trace out)
          \<longrightarrow> prefetchedPhoto (final out) = Some \<lparr>pphoto = p, pquery = q\<rparr>)
    \<and> ((\<forall>t wd ht q p. (t, EPhoto wd ht q (Inr p)) \<notin> set (trace out))
          \<longrightarrow> prefetchedPhoto (final out) = prefetchedPhoto s)
    \<and> (\<forall>t wd ht q e. (t, EPhoto wd ht q (Inl e)) \<in> set (trace out)
          \<longrightarrow> ErrPrefetchFailed e \<in> set (console (final out)))
    \<and> (currentWeather s = None \<longrightarrow> final out = s \<and> trace out = [])"
  unfolding assms
  using prefetch_frame [of B s w] prefetch_stored [of _ _ _ _ _ B s w]
    prefetch_not_stored [of B s w] prefetch_failure_logged [of _ _ _ _ _ B s w]
  by (simp add: prefetch_returns prefetch_undisturbed_but_buffer prefetch_no_context)

text \<open>C7 on the sample page: a prefetch that succeeds, one that fails, and one without
  weather.\<close>

theorem C7_witness:
  "(1752000, EPhoto 800 480 ''nature'' (Inr photo_b))
      \<in> set (trace (run scripted (prefetchNextPhoto (showing_a 1750000)) (serving_b 1750000)))
   \<and> prefetchedPhoto (final (run scripted (prefetchNextPhoto (showing_a 1750000)) (serving_b 1750000)))
        = Some \<lparr>pphoto = photo_b, pquery = ''nature''\<rparr>
   \<and> localStorage (final (run scripted (prefetchNextPhoto (showing_a 1750000)) (serving_b 1750000)))
        = Some (toy_stringify entry_a)
   \<and> backgroundImage (final (run scripted (prefetchNextPhoto (showing_a 1750000)) (serving_b 1750000)))
        = Some ''a.jpg''
   \<and> (1752000, EPhoto 800 480 ''nature'' (Inl (ErrorStr ''offline'')))
      \<in> set (trace (run scripted (prefetchNextPhoto (showing_a 1750000)) (quiet 1750000)))
   \<and> prefetchedPhoto (final (run scripted (prefetchNextPhoto (showing_a 1750000)) (quiet 1750000))) = None
   \<and> ErrPrefetchFailed (ErrorStr ''offline'')
      \<in> set (console (final (run scripted (prefetchNextPhoto (showing_a 1750000)) (quiet 1750000))))
   \<and> currentWeather (blank 5) = None
   \<and> final (run scripted (prefetchNextPhoto (blank 5)) (serving_b 5)) = blank 5"
proof -
  have fetched: "(1752000, EPhoto 800 480 ''nature'' (Inr photo_b))
      \<in> set (trace (run scripted (prefetchNextPhoto (showing_a 1750000)) (serving_b 1750000)))"
    by (simp add: eval_defs)
  have failed: "(1752000, EPhoto 800 480 ''nature'' (Inl (ErrorStr ''offline'')))
      \<in> set (trace (run scripted (prefetchNextPhoto (showing_a 1750000)) (quiet 1750000)))"
    by (simp add: eval_defs)
  have none: "\<forall>t wd ht q p. (t, EPhoto wd ht q (Inr p))
      \<notin> set (trace (run scripted (prefetchNextPhoto (showing_a 1750000)) (quiet 1750000)))"
    by (simp add: eval_defs)
  have blank: "currentWeather (blank 5) = None" by (simp add: blank_def)
  show ?thesis
    using C7_prefetch_touches_only_the_buffer [OF refl, of scripted "showing_a 1750000" "serving_b 1750000"]
      C7_prefetch_touches_only_the_buffer [OF refl, of scripted "showing_a 1750000" "quiet 1750000"]
      C7_prefetch_touches_only_the_buffer [OF refl, of scripted "blank 5" "serving_b 5"]
      fetched failed none blank
    by (simp add: showing_a_def blank_def)
qed

text \<open>
  C3, as the code has it. On a tick whose validity check raises, the error is caught and
  logged and the tick ends there: the failed check is the last exchange, so no forced
  refresh follows, and the stored entry, the surface and the last fetch error are as
  before.
\<close>

theorem C3_validity_error_skips_refresh:
  assumes out: "out = run B (checkPhotoContext P s) w"
    and raised: "(t, EValid ts (Inl e)) \<in> set (trace out)"
  shows "thrown out = None
    \<and> last (trace out) = (t, EValid ts (Inl e))
    \<and> last (console (final out)) = ErrCheckFailed e
    \<and> localStorage (final out) = localStorage s
    \<and> backgroundImage (final out) = backgroundImage s
    \<and> currentPhotoUrl (final out) = currentPhotoUrl s
    \<and> lastPhotoFetchError (final out) = lastPhotoFetchError s"
proof (cases "cached P (localStorage s)")
  case None
  then show ?thesis using raised by (simp add: out run_checkPhotoContext_empty)
next
  case (Some c)
  show ?thesis
    using raised unfolding out run_checkPhotoContext [OF Some]
    by (auto simp add: prefetch_stage_run console_log_def split: prod.splits sum.splits if_splits)
qed

text \<open>C3 as stated fails: thirty-one minutes after \<open>photo_a\<close> was cached, a tick whose
  validity check raises makes no further request and keeps \<open>photo_a\<close>, whereas the same
  tick with the check answering \<open>false\<close> commits and shows \<open>photo_b\<close>.\<close>

theorem C3_counterexample:
  "trace (run scripted (checkPhotoContext toy (showing_a 1860000)) (oracle_down 1860000))
     = [(1861000, EValid 0 (Inl (ErrorStr ''backend down'')))]
   \<and> localStorage (final (run scripted (checkPhotoContext toy (showing_a 1860000)) (oracle_down 1860000)))
       = Some (toy_stringify entry_a)
   \<and> backgroundImage (final (run scripted (checkPhotoContext toy (showing_a 1860000)) (oracle_down 1860000)))
       = Some ''a.jpg''
   \<and> localStorage (final (run scripted (checkPhotoContext toy (showing_a 1860000)) (oracle_expired 1860000)))
       = Some (toy_stringify \<lparr>photo = photo_b, query = ''nature'', timestamp = 1863000\<rparr>)
   \<and> backgroundImage (final (run scripted (checkPhotoContext toy (showing_a 1860000)) (oracle_expired 1860000)))
       = Some ''b.jpg''"
  by (simp add: eval_defs)

theorem C3_witness:
  "(1861000, EValid 0 (Inl (ErrorStr ''backend down'')))
      \<in> set (trace (run scripted (checkPhotoContext toy (showing_a 1860000)) (oracle_down 1860000)))
   \<and> thrown (run scripted (checkPhotoContext toy (showing_a 1860000)) (oracle_down 1860000)) = None
   \<and> last (trace (run scripted (checkPhotoContext toy (showing_a 1860000)) (oracle_down 1860000)))
        = (1861000, EValid 0 (Inl (ErrorStr ''backend down'')))
   \<and> last (console (final (run scripted (checkPhotoContext toy (showing_a 1860000)) (oracle_down 1860000))))
        = ErrCheckFailed (ErrorStr ''backend down'')
   \<and> localStorage (final (run scripted (checkPhotoContext toy (showing_a 1860000)) (oracle_down 1860000)))
        = Some (toy_stringify entry_a)"
proof -
  have raised: "(1861000, EValid 0 (Inl (ErrorStr ''backend down'')))
      \<in> set (trace (run scripted (checkPhotoContext toy (showing_a 1860000)) (oracle_down 1860000)))"
    by (simp add: eval_defs)
  show ?thesis
    using C3_validity_error_skips_refresh [OF refl raised] raised
    by (simp add: showing_a_def blank_def)
qed








text \<open>The tick that follows expiry calls \<open>fetchUnsplashPhoto(true)\<close> as well, so it too
  fetches anew and keeps the pending photo.\<close>

lemma expired_tick_fetches_despite_prefetch:
  "localStorage (final (run scripted (checkPhotoContext toy (pending_c 1860000)) (oracle_expired 1860000)))
       = Some (toy_stringify \<lparr>photo = photo_b, query = ''nature'', timestamp = 1863000\<rparr>)
   \<and> prefetchedPhoto (final (run scripted (checkPhotoContext toy (pending_c 1860000)) (oracle_expired 1860000)))
       = Some \<lparr>pphoto = photo_c, pquery = ''snow''\<rparr>"
  by (simp add: eval_defs sample_defs)



text \<open>
  C8, as the code has it. No guard serializes refreshes: from every state of the page
  with weather available a forced refresh suspends on its own query; whatever the page
  looks like when the query is answered it goes on to its own fetch; and whatever the
  page looks like when the photo arrives it commits that photo with the time of
  arrival.
\<close>

theorem C8_no_in_flight_guard:
  assumes weather: "currentWeather s \<noteq> None"
  shows "in_flight (fetchUnsplashPhoto P True s)
    \<and> (\<forall>q s1. \<exists>r1. resume (fetchUnsplashPhoto P True s) (AQuery (Inr q)) s1 = Some r1
          \<and> in_flight r1
          \<and> (\<forall>p s2. \<exists>r2. resume r1 (APhoto (Inr p)) s2 = Some r2
                \<and> localStorage (state_of r2)
                     = Some (JSON_stringify P \<lparr>photo = p, query = q, timestamp = now s2\<rparr>)
                \<and> currentPhotoUrl (state_of r2) = Some (url p)))"
proof -
  from weather obtain wt where wt: "currentWeather s = Some wt" by auto
  show ?thesis
    by (simp add: fetchUnsplashPhoto_def fetch_try_def fetch_new_def gcp wt buildPhotoQueryParams_def
          settled_def fetchPhotoWithQuery_def displayPhoto_def cachePhoto_def console_log_def Let_def)
qed

text \<open>C8 as stated fails: a tick and a manual refresh in flight together each commit,
  first \<open>photo_b\<close>, then \<open>photo_c\<close> over it.\<close>

theorem C8_counterexample:
  "map in_flight (tasks (happen overlap page0)) = [True, True]
   \<and> localStorage (page_state (happen (overlap @ [first_lands]) page0))
       = Some (toy_stringify \<lparr>photo = photo_b, query = ''nature'', timestamp = 1860500\<rparr>)
   \<and> localStorage (page_state (happen (overlap @ [first_lands, second_lands]) page0))
       = Some (toy_stringify \<lparr>photo = photo_c, query = ''nature'', timestamp = 1860600\<rparr>)"
  by (simp add: eval_defs sample_defs)

theorem C8_witness:
  "currentWeather (showing_a 1860000) \<noteq> None
   \<and> in_flight (fetchUnsplashPhoto toy True (showing_a 1860000))"
proof -
  have w: "currentWeather (showing_a 1860000) \<noteq> None"
    by (simp add: showing_a_def blank_def)
  show ?thesis
    using C8_no_in_flight_guard [OF w, of toy] w by simp
qed

end
